theory Spec2Isabelle
  imports Complex_Main
begin

section \<open>Configuration\<close>

text \<open>
  \<^verbatim>\<open>WIDTH, HEIGHT = 1920, 1080\<close>: the fixed working resolution of
  \<^verbatim>\<open>sam_server_syphon.py\<close>.
\<close>

definition WIDTH :: int where
  "WIDTH = 1920"

definition HEIGHT :: int where
  "HEIGHT = 1080"

section \<open>The prompt state\<close>

text \<open>
  \<^verbatim>\<open>class PromptState\<close>. A stored point is the two-element list \<^verbatim>\<open>[x, y]\<close>,
  modelled as a pair; \<^verbatim>\<open>box\<close> is \<^verbatim>\<open>None\<close> or the list \<^verbatim>\<open>[x1, y1, x2, y2]\<close>.
  The reentrant lock is not a field of the model: every method body runs entirely
  under it, so each method is one transition of the state.
\<close>

record PromptState =
  mode :: string
  points :: "(int \<times> int) list"
  labels :: "int list"
  box :: "int list option"
  needs_update :: bool

text \<open>\<^verbatim>\<open>PromptState.__init__\<close>\<close>

definition init_prompt :: PromptState where
  "init_prompt =
     \<lparr>mode = ''auto'', points = [], labels = [], box = None, needs_update = False\<rparr>"

definition clear :: "PromptState \<Rightarrow> PromptState" where
  "clear s = s\<lparr>points := [], labels := [], box := None, needs_update := True\<rparr>"

definition add_point :: "int \<Rightarrow> int \<Rightarrow> int \<Rightarrow> PromptState \<Rightarrow> PromptState" where
  "add_point x y label s =
     s\<lparr>points := points s @ [(x, y)], labels := labels s @ [label], needs_update := True\<rparr>"

definition set_box :: "int \<Rightarrow> int \<Rightarrow> int \<Rightarrow> int \<Rightarrow> PromptState \<Rightarrow> PromptState" where
  "set_box x1 y1 x2 y2 s = s\<lparr>box := Some [x1, y1, x2, y2], needs_update := True\<rparr>"

definition set_mode :: "string \<Rightarrow> PromptState \<Rightarrow> PromptState" where
  "set_mode m s = (clear (s\<lparr>mode := m\<rparr>))\<lparr>needs_update := True\<rparr>"

text \<open>
  \<^verbatim>\<open>consume_update_flag\<close> returns the flag it read and leaves it reset.
\<close>

definition consume_update_flag :: "PromptState \<Rightarrow> bool \<times> PromptState" where
  "consume_update_flag s = (needs_update s, s\<lparr>needs_update := False\<rparr>)"

text \<open>
  The read at the head of \<^verbatim>\<open>process_frame_with_sam\<close>, taken under the lock: an
  empty \<^verbatim>\<open>points\<close> or \<^verbatim>\<open>labels\<close> list and a missing (or empty) box are read
  as \<^verbatim>\<open>None\<close>.
\<close>

record prompt_snapshot =
  snap_mode :: string
  snap_points :: "(int \<times> int) list option"
  snap_labels :: "int list option"
  snap_box :: "int list option"

definition snapshot :: "PromptState \<Rightarrow> prompt_snapshot" where
  "snapshot s =
     \<lparr>snap_mode = mode s,
      snap_points = (if points s \<noteq> [] then Some (points s) else None),
      snap_labels = (if labels s \<noteq> [] then Some (labels s) else None),
      snap_box = (case box s of
                    None \<Rightarrow> None
                  | Some b \<Rightarrow> if b \<noteq> [] then Some b else None)\<rparr>"

subsection \<open>Sequences of operations\<close>

text \<open>
  The operations other code performs on the one \<^verbatim>\<open>prompt_state\<close> object, as data,
  so that a history of calls can be run.
\<close>

datatype store_op =
    Clear
  | AddPoint int int int
  | SetBox int int int int
  | SetMode string
  | ConsumeDirty

fun is_mutation :: "store_op \<Rightarrow> bool" where
  "is_mutation ConsumeDirty = False"
| "is_mutation _ = True"

fun apply_op :: "store_op \<Rightarrow> PromptState \<Rightarrow> PromptState" where
  "apply_op Clear s = clear s"
| "apply_op (AddPoint x y label) s = add_point x y label s"
| "apply_op (SetBox x1 y1 x2 y2) s = set_box x1 y1 x2 y2 s"
| "apply_op (SetMode m) s = set_mode m s"
| "apply_op ConsumeDirty s = snd (consume_update_flag s)"

fun run_ops :: "store_op list \<Rightarrow> PromptState \<Rightarrow> PromptState" where
  "run_ops [] s = s"
| "run_ops (op # ops) s = run_ops ops (apply_op op s)"

section \<open>The OSC handlers\<close>

text \<open>
  Python's \<^verbatim>\<open>int()\<close> on a float truncates toward zero. The coordinates of a
  message are modelled as rationals and the product with the resolution as exact: an
  OSC float argument is a 32-bit float, whose product with 1920 or 1080 is exact in
  the 64-bit float Python computes with.
\<close>

definition py_int :: "rat \<Rightarrow> int" where
  "py_int q = (if q < 0 then \<lceil>q\<rceil> else \<lfloor>q\<rfloor>)"

text \<open>
  Each handler wraps its call in \<^verbatim>\<open>try/except\<close>; the methods of
  \<^verbatim>\<open>PromptState\<close> raise nothing, so the handler's effect is the method's.
\<close>

definition handle_mode :: "string \<Rightarrow> PromptState \<Rightarrow> PromptState" where
  "handle_mode m s = set_mode m s"

definition handle_point :: "rat \<Rightarrow> rat \<Rightarrow> int \<Rightarrow> PromptState \<Rightarrow> PromptState" where
  "handle_point x y label s =
     (let px = py_int (x * of_int WIDTH); py = py_int (y * of_int HEIGHT)
      in add_point px py label s)"

definition handle_box :: "rat \<Rightarrow> rat \<Rightarrow> rat \<Rightarrow> rat \<Rightarrow> PromptState \<Rightarrow> PromptState" where
  "handle_box x1 y1 x2 y2 s =
     (let bx1 = py_int (x1 * of_int WIDTH); by1 = py_int (y1 * of_int HEIGHT);
          bx2 = py_int (x2 * of_int WIDTH); by2 = py_int (y2 * of_int HEIGHT)
      in set_box bx1 by1 bx2 by2 s)"

definition handle_clear :: "PromptState \<Rightarrow> PromptState" where
  "handle_clear s = clear s"

text \<open>
  The dispatcher of \<^verbatim>\<open>create_osc_server\<close>: the four mapped addresses, and the
  default handler \<^verbatim>\<open>handle_any\<close>, which only prints.
\<close>

datatype command =
    SamMode string
  | SamPoint rat rat int
  | SamBox rat rat rat rat
  | SamClear
  | Unmapped

fun dispatch :: "command \<Rightarrow> PromptState \<Rightarrow> PromptState" where
  "dispatch (SamMode m) s = handle_mode m s"
| "dispatch (SamPoint x y label) s = handle_point x y label s"
| "dispatch (SamBox x1 y1 x2 y2) s = handle_box x1 y1 x2 y2 s"
| "dispatch SamClear s = handle_clear s"
| "dispatch Unmapped s = s"

fun dispatch_all :: "command list \<Rightarrow> PromptState \<Rightarrow> PromptState" where
  "dispatch_all [] s = s"
| "dispatch_all (c # cs) s = dispatch_all cs (dispatch c s)"

section \<open>Segmenting one frame\<close>

text \<open>
  The exceptions \<^verbatim>\<open>process_frame_with_sam\<close> can end with: one raised by a call of
  the predictor, and Python's own for an empty \<^verbatim>\<open>argmax\<close>, an index out of range
  and a \<^verbatim>\<open>zip\<close> over \<^verbatim>\<open>None\<close>.
\<close>

datatype error = PredictorError | ValueError | IndexError | TypeError

text \<open>
  The messages sent to TouchDesigner: \<^verbatim>\<open>/sam/masks/count\<close>,
  \<^verbatim>\<open>/sam/mask/0/score\<close> and \<^verbatim>\<open>/sam/mask/0/area\<close>. Scores are only compared
  and forwarded; they and the area are modelled as rationals.
\<close>

datatype telemetry = MasksCount int | Mask0Score rat | Mask0Area rat

text \<open>
  The SAM 2 predictor is an opaque collaborator: \<^verbatim>\<open>set_image\<close> returns or raises,
  \<^verbatim>\<open>predict\<close> returns the arrays \<^verbatim>\<open>masks\<close> and \<^verbatim>\<open>scores\<close> or raises. The frame set
  by \<^verbatim>\<open>set_image\<close> is passed to the prediction explicitly.
\<close>

record ('f, 'm) predictor =
  set_image :: "'f \<Rightarrow> error option"
  predict_points :: "'f \<Rightarrow> (int \<times> int) list \<Rightarrow> int list option \<Rightarrow> error + ('m list \<times> rat list)"
  predict_box :: "'f \<Rightarrow> int list \<Rightarrow> error + ('m list \<times> rat list)"

text \<open>
  The pixel operations of numpy and OpenCV, left abstract: the black frame
  \<^verbatim>\<open>np.zeros((HEIGHT, WIDTH, 3))\<close>, \<^verbatim>\<open>np.sum\<close> of a mask, and the two overlays drawn
  on a copy of the frame (green blend with point markers, yellow blend with the box
  outline).
\<close>

record ('f, 'm) imaging =
  test_frame :: 'f
  mask_sum :: "'m \<Rightarrow> nat"
  point_overlay :: "'f \<Rightarrow> 'm \<Rightarrow> (int \<times> int) list \<Rightarrow> int list \<Rightarrow> 'f"
  box_overlay :: "'f \<Rightarrow> 'm \<Rightarrow> int list \<Rightarrow> 'f"

text \<open>\<^verbatim>\<open>np.argmax\<close>: the first index of the largest score.\<close>

fun argmax_from :: "nat \<Rightarrow> rat \<Rightarrow> nat \<Rightarrow> rat list \<Rightarrow> nat" where
  "argmax_from best_i best_v i [] = best_i"
| "argmax_from best_i best_v i (x # xs) =
     (if best_v < x then argmax_from i x (Suc i) xs
      else argmax_from best_i best_v (Suc i) xs)"

definition argmax :: "rat list \<Rightarrow> nat" where
  "argmax xs = (case xs of [] \<Rightarrow> 0 | x # rest \<Rightarrow> argmax_from 0 x 1 rest)"

text \<open>
  The branch for \<^verbatim>\<open>mode == "point"\<close>. Every message is sent after the last
  statement that can raise.
\<close>

definition point_segmentation ::
  "('f, 'm) imaging \<Rightarrow> ('f, 'm) predictor \<Rightarrow> 'f \<Rightarrow> (int \<times> int) list \<Rightarrow> int list option
     \<Rightarrow> telemetry list \<times> (error + 'f)" where
  "point_segmentation im pr frame pts lbls =
     (case predict_points pr frame pts lbls of
        Inl e \<Rightarrow> ([], Inl e)
      | Inr (masks, scores) \<Rightarrow>
          if scores = [] then ([], Inl ValueError)
          else if length masks \<le> argmax scores then ([], Inl IndexError)
          else
            (let best_mask = masks ! argmax scores;
                 best_score = scores ! argmax scores
             in case lbls of
                  None \<Rightarrow> ([], Inl TypeError)
                | Some ls \<Rightarrow>
                    ([MasksCount 1, Mask0Score best_score,
                      Mask0Area (of_nat (mask_sum im best_mask) / of_int (WIDTH * HEIGHT))],
                     Inr (point_overlay im frame best_mask pts ls))))"

text \<open>
  The branch for \<^verbatim>\<open>mode == "box"\<close>. \<^verbatim>\<open>masks[0]\<close> is read before anything is sent,
  \<^verbatim>\<open>scores[0]\<close> only after the count has been sent.
\<close>

definition box_segmentation ::
  "('f, 'm) imaging \<Rightarrow> ('f, 'm) predictor \<Rightarrow> 'f \<Rightarrow> int list
     \<Rightarrow> telemetry list \<times> (error + 'f)" where
  "box_segmentation im pr frame b =
     (case predict_box pr frame b of
        Inl e \<Rightarrow> ([], Inl e)
      | Inr (masks, scores) \<Rightarrow>
          (case masks of
             [] \<Rightarrow> ([], Inl IndexError)
           | mask0 # _ \<Rightarrow>
               (case scores of
                  [] \<Rightarrow> ([MasksCount 1], Inl IndexError)
                | score # _ \<Rightarrow>
                    ([MasksCount 1, Mask0Score score,
                      Mask0Area (of_nat (mask_sum im mask0) / of_int (WIDTH * HEIGHT))],
                     Inr (box_overlay im frame mask0 b)))))"

text \<open>
  \<^verbatim>\<open>process_frame_with_sam\<close>: the messages sent, and the visualization returned or
  the exception raised.
\<close>

definition process_frame_with_sam ::
  "('f, 'm) imaging \<Rightarrow> ('f, 'm) predictor \<Rightarrow> 'f \<Rightarrow> PromptState
     \<Rightarrow> telemetry list \<times> (error + 'f)" where
  "process_frame_with_sam im pr frame ps =
     (let sn = snapshot ps
      in case set_image pr frame of
           Some e \<Rightarrow> ([], Inl e)
         | None \<Rightarrow>
             if snap_mode sn = ''auto'' then ([MasksCount 0], Inr frame)
             else
               (case (if snap_mode sn = ''point'' then snap_points sn else None) of
                  Some pts \<Rightarrow> point_segmentation im pr frame pts (snap_labels sn)
                | None \<Rightarrow>
                    (case (if snap_mode sn = ''box'' then snap_box sn else None) of
                       Some b \<Rightarrow> box_segmentation im pr frame b
                     | None \<Rightarrow> ([MasksCount 0], Inr frame))))"

section \<open>The main loop\<close>

text \<open>
  What the Syphon client gives on one iteration: nothing (no client, no new frame, or
  a null image), an exception inside the \<^verbatim>\<open>try\<close> block, or a frame, converted to
  RGB and flipped. The conversions of a frame already received are taken as total.
\<close>

datatype 'f source_read = NoNewFrame | ReadFailed | NewFrame 'f

text \<open>The pair \<^verbatim>\<open>(frame, last_frame)\<close> after the \<^verbatim>\<open>try\<close> block.\<close>

fun acquire :: "'f source_read \<Rightarrow> 'f option \<Rightarrow> 'f option \<times> 'f option" where
  "acquire (NewFrame f) lf = (Some f, Some f)"
| "acquire NoNewFrame lf = (None, lf)"
| "acquire ReadFailed lf = (None, lf)"

text \<open>\<^verbatim>\<open># Reuse last frame if no new input\<close>\<close>

definition reuse_last_frame :: "('f, 'm) imaging \<Rightarrow> 'f option \<Rightarrow> 'f option \<Rightarrow> 'f" where
  "reuse_last_frame im frame lf =
     (case frame of
        Some f \<Rightarrow> f
      | None \<Rightarrow> (case lf of Some l \<Rightarrow> l | None \<Rightarrow> test_frame im))"

text \<open>The local variables of \<^verbatim>\<open>main\<close> that live across iterations, with the global prompt state.\<close>

record 'f loop_state =
  frame_count :: nat
  last_frame :: "'f option"
  last_mask_viz :: "'f option"
  prompt_state :: PromptState

definition init_loop :: "'f loop_state" where
  "init_loop =
     \<lparr>frame_count = 0, last_frame = None, last_mask_viz = None, prompt_state = init_prompt\<rparr>"

text \<open>
  What the outside does during one iteration: the Syphon read, the behaviour of the
  predictor, and the OSC messages the server thread handles, split at the two places
  where the loop takes the lock: before \<^verbatim>\<open>consume_update_flag\<close>, and between it and the
  read in \<^verbatim>\<open>process_frame_with_sam\<close>.
\<close>

record ('f, 'm) tick_input =
  syphon_read :: "'f source_read"
  sam :: "('f, 'm) predictor"
  osc_before :: "command list"
  osc_during :: "command list"

datatype inference_outcome = NotRun | Succeeded | Failed error

text \<open>
  What one iteration does: the frame it works on, whether \<^verbatim>\<open>process_frame_with_sam\<close>
  was called and how it ended, the image \<^verbatim>\<open>mask_viz\<close> handed to the Syphon send
  step, and the messages sent.
\<close>

record 'f tick_output =
  processed_frame :: 'f
  inference :: inference_outcome
  published :: 'f
  sent :: "telemetry list"

definition tick ::
  "('f, 'm) imaging \<Rightarrow> ('f, 'm) tick_input \<Rightarrow> 'f loop_state \<Rightarrow> 'f tick_output \<times> 'f loop_state" where
  "tick im inp st =
     (let (frame0, lf) = acquire (syphon_read inp) (last_frame st);
          frame = reuse_last_frame im frame0 lf;
          (needs, ps1) = consume_update_flag (dispatch_all (osc_before inp) (prompt_state st));
          ps2 = dispatch_all (osc_during inp) ps1;
          st' = st\<lparr>frame_count := frame_count st + 1, last_frame := lf, prompt_state := ps2\<rparr>
      in if needs \<or> frame_count st mod 30 = 0 then
           (case process_frame_with_sam im (sam inp) frame ps2 of
              (msgs, Inr mask_viz) \<Rightarrow>
                (\<lparr>processed_frame = frame, inference = Succeeded, published = mask_viz,
                  sent = msgs\<rparr>,
                 st'\<lparr>last_mask_viz := Some mask_viz\<rparr>)
            | (msgs, Inl e) \<Rightarrow>
                (\<lparr>processed_frame = frame, inference = Failed e, published = frame,
                  sent = msgs\<rparr>,
                 st'))
         else
           (\<lparr>processed_frame = frame, inference = NotRun,
             published = (case last_mask_viz st of Some v \<Rightarrow> v | None \<Rightarrow> frame),
             sent = []\<rparr>,
            st'))"

text \<open>The iterations of \<^verbatim>\<open>while running\<close>, one per input, with what each did.\<close>

fun run_loop ::
  "('f, 'm) imaging \<Rightarrow> ('f, 'm) tick_input list \<Rightarrow> 'f loop_state
     \<Rightarrow> 'f tick_output list \<times> 'f loop_state" where
  "run_loop im [] st = ([], st)"
| "run_loop im (inp # inps) st =
     (let (out, st1) = tick im inp st;
          (outs, st2) = run_loop im inps st1
      in (out # outs, st2))"

text \<open>
  Three parts of the body of \<^const>\<open>tick\<close>, named so that statements can refer to them:
  the frame the iteration works on, the condition of the \<^verbatim>\<open>if\<close> that guards the call
  of \<^verbatim>\<open>process_frame_with_sam\<close>, and the prompt state that call reads.
\<close>

definition current_frame :: "('f, 'm) imaging \<Rightarrow> ('f, 'm) tick_input \<Rightarrow> 'f loop_state \<Rightarrow> 'f" where
  "current_frame im inp st =
     reuse_last_frame im (fst (acquire (syphon_read inp) (last_frame st)))
       (snd (acquire (syphon_read inp) (last_frame st)))"

definition triggered :: "('f, 'm) tick_input \<Rightarrow> 'f loop_state \<Rightarrow> bool" where
  "triggered inp st =
     (fst (consume_update_flag (dispatch_all (osc_before inp) (prompt_state st)))
      \<or> frame_count st mod 30 = 0)"

definition prompt_after :: "('f, 'm) tick_input \<Rightarrow> 'f loop_state \<Rightarrow> PromptState" where
  "prompt_after inp st =
     dispatch_all (osc_during inp)
       (snd (consume_update_flag (dispatch_all (osc_before inp) (prompt_state st))))"

section \<open>Histories\<close>

text \<open>
  Notions about a whole run, used to state what the two single-slot caches of the loop
  hold: the most recent value in a list of optional values, whether a Syphon read
  brought a frame, and the visualization an iteration computed, if it computed one.
\<close>

fun latest :: "'a option \<Rightarrow> 'a option list \<Rightarrow> 'a option" where
  "latest acc [] = acc"
| "latest acc (None # xs) = latest acc xs"
| "latest acc (Some x # xs) = latest (Some x) xs"



definition computed :: "'f tick_output \<Rightarrow> 'f option" where
  "computed out = (if inference out = Succeeded then Some (published out) else None)"


text \<open>A call \<^verbatim>\<open>add_point(x, y, label)\<close> as an operation, and the point it stores.\<close>

fun point_op :: "int \<times> int \<times> int \<Rightarrow> store_op" where
  "point_op (x, y, label) = AddPoint x y label"

fun coords :: "int \<times> int \<times> int \<Rightarrow> int \<times> int" where
  "coords (x, y, label) = (x, y)"

section \<open>The specification's addPoint\<close>

text \<open>
  The operation as the specification words it, for comparison with \<^const>\<open>add_point\<close>:
  it appends the point with its label and sets the flag, and fails with
  \<open>InvalidCommand\<close> when the label is neither 0 nor 1.
\<close>

datatype spec_error = InvalidCommand

definition addPoint_spec :: "int \<Rightarrow> int \<Rightarrow> int \<Rightarrow> PromptState \<Rightarrow> spec_error + PromptState" where
  "addPoint_spec x y label s =
     (if label \<notin> {0, 1} then Inl InvalidCommand
      else Inr (s\<lparr>points := points s @ [(x, y)], labels := labels s @ [label],
                  needs_update := True\<rparr>))"

section \<open>Concrete collaborators\<close>

text \<open>
  Small stand-ins for the collaborators, for evaluating the loop on concrete runs:
  frames and masks are numbers, an overlay adds the mask to the frame, one predictor
  always answers and one always raises.
\<close>

definition ex_imaging :: "(nat, nat) imaging" where
  "ex_imaging =
     \<lparr>test_frame = 0, mask_sum = (\<lambda>m. m),
      point_overlay = (\<lambda>frame m pts ls. frame + m),
      box_overlay = (\<lambda>frame m b. frame + m)\<rparr>"

definition ok_sam :: "(nat, nat) predictor" where
  "ok_sam =
     \<lparr>set_image = (\<lambda>frame. None),
      predict_points = (\<lambda>frame pts ls. Inr ([1, 2, 3], [2/5, 9/10, 1/4])),
      predict_box = (\<lambda>frame b. Inr ([4], [3/4]))\<rparr>"

definition failing_sam :: "(nat, nat) predictor" where
  "failing_sam =
     \<lparr>set_image = (\<lambda>frame. Some PredictorError),
      predict_points = (\<lambda>frame pts ls. Inl PredictorError),
      predict_box = (\<lambda>frame b. Inl PredictorError)\<rparr>"

definition quiet :: "nat source_read \<Rightarrow> (nat, nat) predictor \<Rightarrow> (nat, nat) tick_input" where
  "quiet r pr = \<lparr>syphon_read = r, sam = pr, osc_before = [], osc_during = []\<rparr>"

definition edit_tick :: "command list \<Rightarrow> nat \<Rightarrow> (nat, nat) predictor \<Rightarrow> (nat, nat) tick_input" where
  "edit_tick cs frame pr =
     \<lparr>syphon_read = NewFrame frame, sam = pr, osc_before = cs, osc_during = []\<rparr>"

lemmas ex_defs = ex_imaging_def ok_sam_def failing_sam_def quiet_def edit_tick_def
  init_loop_def init_prompt_def
  tick_def process_frame_with_sam_def point_segmentation_def box_segmentation_def snapshot_def
  consume_update_flag_def reuse_last_frame_def argmax_def
  handle_mode_def handle_point_def handle_box_def handle_clear_def
  set_mode_def clear_def add_point_def set_box_def py_int_def WIDTH_def HEIGHT_def

section \<open>Auxiliary facts\<close>

subsection \<open>The update flag and the stored points\<close>

lemma needs_update_apply_op:
  "needs_update (apply_op op s) = is_mutation op"
  by (cases op)
     (simp_all add: clear_def add_point_def set_box_def set_mode_def consume_update_flag_def)

lemma needs_update_run_mutations:
  "ms \<noteq> [] \<Longrightarrow> \<forall>m\<in>set ms. is_mutation m \<Longrightarrow> needs_update (run_ops ms s)"
proof (induction ms arbitrary: s)
  case Nil
  then show ?case by simp
next
  case (Cons m ms)
  show ?case
  proof (cases ms)
    case Nil
    with Cons.prems show ?thesis by (simp add: needs_update_apply_op)
  next
    case (Cons m' ms')
    with Cons.IH Cons.prems show ?thesis by simp
  qed
qed

lemma needs_update_run_reads:
  "\<forall>r\<in>set rs. \<not> is_mutation r \<Longrightarrow> \<not> needs_update s \<Longrightarrow> \<not> needs_update (run_ops rs s)"
  by (induction rs arbitrary: s) (simp_all add: needs_update_apply_op)

lemma points_run_point_ops:
  "points (run_ops (map point_op pts) s) = points s @ map coords pts \<and>
   labels (run_ops (map point_op pts) s) = labels s @ map (\<lambda>p. snd (snd p)) pts"
proof (induction pts arbitrary: s)
  case Nil
  show ?case by simp
next
  case (Cons p pts)
  obtain x y l where p: "p = (x, y, l)"
    by (cases p) auto
  show ?case
    using Cons.IH [of "add_point x y l s"] by (simp add: p add_point_def)
qed

lemma aligned_apply_op:
  "length (points s) = length (labels s) \<Longrightarrow>
     length (points (apply_op op s)) = length (labels (apply_op op s))"
  by (cases op) (simp_all add: clear_def add_point_def set_box_def set_mode_def consume_update_flag_def)

lemma aligned_run_ops:
  "length (points s) = length (labels s) \<Longrightarrow>
     length (points (run_ops ops s)) = length (labels (run_ops ops s))"
  by (induction ops arbitrary: s) (simp_all add: aligned_apply_op)

subsection \<open>Scaling a coordinate\<close>


subsection \<open>One iteration\<close>

lemma tick_not_triggered:
  "\<not> triggered inp st \<Longrightarrow>
     tick im inp st =
       (\<lparr>processed_frame = current_frame im inp st, inference = NotRun,
         published = (case last_mask_viz st of Some v \<Rightarrow> v | None \<Rightarrow> current_frame im inp st),
         sent = []\<rparr>,
        st\<lparr>frame_count := frame_count st + 1,
           last_frame := snd (acquire (syphon_read inp) (last_frame st)),
           prompt_state := prompt_after inp st\<rparr>)"
  by (simp add: tick_def triggered_def current_frame_def prompt_after_def case_prod_beta Let_def
      split: option.splits)

lemma tick_failed:
  "triggered inp st \<Longrightarrow>
   process_frame_with_sam im (sam inp) (current_frame im inp st) (prompt_after inp st) = (msgs, Inl e) \<Longrightarrow>
     tick im inp st =
       (\<lparr>processed_frame = current_frame im inp st, inference = Failed e,
         published = current_frame im inp st, sent = msgs\<rparr>,
        st\<lparr>frame_count := frame_count st + 1,
           last_frame := snd (acquire (syphon_read inp) (last_frame st)),
           prompt_state := prompt_after inp st\<rparr>)"
  by (simp add: tick_def triggered_def current_frame_def prompt_after_def case_prod_beta Let_def)

lemma tick_succeeded:
  "triggered inp st \<Longrightarrow>
   process_frame_with_sam im (sam inp) (current_frame im inp st) (prompt_after inp st) = (msgs, Inr v) \<Longrightarrow>
     tick im inp st =
       (\<lparr>processed_frame = current_frame im inp st, inference = Succeeded,
         published = v, sent = msgs\<rparr>,
        st\<lparr>frame_count := frame_count st + 1,
           last_frame := snd (acquire (syphon_read inp) (last_frame st)),
           prompt_state := prompt_after inp st, last_mask_viz := Some v\<rparr>)"
  by (simp add: tick_def triggered_def current_frame_def prompt_after_def case_prod_beta Let_def)

lemma tick_cases:
  obtains (idle) "\<not> triggered inp st"
  | (failed) msgs e where "triggered inp st"
      "process_frame_with_sam im (sam inp) (current_frame im inp st) (prompt_after inp st) = (msgs, Inl e)"
  | (succeeded) msgs v where "triggered inp st"
      "process_frame_with_sam im (sam inp) (current_frame im inp st) (prompt_after inp st) = (msgs, Inr v)"
proof (cases "triggered inp st")
  case False
  then show ?thesis by (rule idle)
next
  case True
  obtain msgs r where pr:
    "process_frame_with_sam im (sam inp) (current_frame im inp st) (prompt_after inp st) = (msgs, r)"
    by (cases "process_frame_with_sam im (sam inp) (current_frame im inp st) (prompt_after inp st)")
  show ?thesis
  proof (cases r)
    case (Inl e)
    with True pr show ?thesis by (auto intro: failed)
  next
    case (Inr v)
    with True pr show ?thesis by (auto intro: succeeded)
  qed
qed






lemma tick_last_mask_viz:
  "last_mask_viz (snd (tick im inp st)) =
     (if inference (fst (tick im inp st)) = Succeeded
      then Some (published (fst (tick im inp st))) else last_mask_viz st)"
  by (rule tick_cases [where inp = inp and st = st and im = im])
     (simp_all add: tick_not_triggered tick_failed tick_succeeded)

lemma tick_published_NotRun:
  "inference (fst (tick im inp st)) = NotRun \<Longrightarrow>
     published (fst (tick im inp st)) =
       (case last_mask_viz st of Some v \<Rightarrow> v | None \<Rightarrow> processed_frame (fst (tick im inp st)))
     \<and> sent (fst (tick im inp st)) = []"
  by (rule tick_cases [where inp = inp and st = st and im = im])
     (simp_all add: tick_not_triggered tick_failed tick_succeeded split: option.splits)

lemma tick_published_Failed:
  "inference (fst (tick im inp st)) = Failed e \<Longrightarrow>
     published (fst (tick im inp st)) = processed_frame (fst (tick im inp st))"
  by (rule tick_cases [where inp = inp and st = st and im = im])
     (simp_all add: tick_not_triggered tick_failed tick_succeeded)

lemma process_failed_sent:
  "process_frame_with_sam im pr frame ps = (msgs, Inl e) \<Longrightarrow> set msgs \<subseteq> {MasksCount 1}"
  by (auto simp add: process_frame_with_sam_def point_segmentation_def box_segmentation_def Let_def
      split: option.splits sum.splits prod.splits if_splits list.splits)

lemma process_set_image_raises:
  "set_image pr frame = Some e \<Longrightarrow> process_frame_with_sam im pr frame ps = ([], Inl e)"
  by (simp add: process_frame_with_sam_def)

lemma run_loop_length: "length (fst (run_loop im inps st)) = length inps"
  by (induction inps arbitrary: st) (simp_all add: case_prod_beta)

lemma run_loop_take:
  "fst (run_loop im (take i inps) st) = take i (fst (run_loop im inps st))"
proof (induction inps arbitrary: i st)
  case Nil
  show ?case by simp
next
  case (Cons inp inps)
  show ?case
    by (cases i) (simp_all add: case_prod_beta Cons.IH)
qed

lemma run_loop_nth:
  "i < length inps \<Longrightarrow>
     fst (run_loop im inps st) ! i = fst (tick im (inps ! i) (snd (run_loop im (take i inps) st)))"
proof (induction inps arbitrary: i st)
  case Nil
  then show ?case by simp
next
  case (Cons inp inps)
  show ?case
  proof (cases i)
    case 0
    then show ?thesis by (simp add: case_prod_beta)
  next
    case (Suc j)
    with Cons.prems have "j < length inps" by simp
    from Cons.IH [OF this, of "snd (tick im inp st)"] Suc show ?thesis
      by (simp add: case_prod_beta)
  qed
qed


subsection \<open>The two caches over a run\<close>

lemma latest_all_None:
  "\<forall>k<length xs. xs ! k = None \<Longrightarrow> latest acc xs = acc"
proof (induction xs arbitrary: acc)
  case Nil
  show ?case by simp
next
  case (Cons x xs)
  from Cons.prems have x: "x = None"
    by auto
  from Cons.prems have "\<forall>k<length xs. xs ! k = None"
    by auto
  with Cons.IH x show ?case
    by simp
qed



lemma last_mask_viz_run:
  "last_mask_viz (snd (run_loop im inps st)) =
     latest (last_mask_viz st) (map computed (fst (run_loop im inps st)))"
proof (induction inps arbitrary: st)
  case Nil
  show ?case by simp
next
  case (Cons inp inps)
  show ?case
    by (simp add: case_prod_beta Cons.IH tick_last_mask_viz computed_def)
qed



subsection \<open>Runs without edits\<close>





section \<open>Properties of the prompt state\<close>

text \<open>
  C4. Whatever the prompt state was before (any mode, points, labels, box, flag), the
  state produced by \<^verbatim>\<open>set_mode(m)\<close> has no points, no box, mode \<open>m\<close> and the
  update flag set. The method is one transition of the state: its whole body runs
  under the lock.
\<close>

theorem set_mode_resets_prompts:
  "points (set_mode m s) = [] \<and> box (set_mode m s) = None \<and>
   mode (set_mode m s) = m \<and> needs_update (set_mode m s) = True"
  by (simp add: set_mode_def clear_def)

text \<open>
  C3, as the code has it. \<^verbatim>\<open>add_point\<close> checks nothing: for every label, 0 or 1
  or any other, it appends the point to \<^verbatim>\<open>points\<close> and the label to \<^verbatim>\<open>labels\<close>,
  sets the flag and leaves mode and box alone. For a label that is 0 or 1 this is
  what the specification's operation returns.
\<close>

theorem add_point_any_label:
  "points (add_point x y label s) = points s @ [(x, y)] \<and>
   labels (add_point x y label s) = labels s @ [label] \<and>
   needs_update (add_point x y label s) = True \<and>
   mode (add_point x y label s) = mode s \<and>
   box (add_point x y label s) = box s \<and>
   (label \<in> {0, 1} \<longrightarrow> addPoint_spec x y label s = Inr (add_point x y label s))"
  by (simp add: add_point_def addPoint_spec_def)

text \<open>The statement at the centre of the frame with a positive label.\<close>

theorem add_point_any_label_witness:
  "(1::int) \<in> {0, 1} \<and>
   addPoint_spec 960 540 1 init_prompt = Inr (add_point 960 540 1 init_prompt) \<and>
   points (add_point 960 540 1 init_prompt) = [(960, 540)] \<and>
   labels (add_point 960 540 1 init_prompt) = [1]"
  using add_point_any_label [of 960 540 1 init_prompt]
  by (simp add: init_prompt_def)

text \<open>
  C3 as stated fails: with label 2 the specification's operation fails with
  \<open>InvalidCommand\<close>, while \<^verbatim>\<open>add_point\<close> returns normally and stores the point
  with label 2.
\<close>

theorem add_point_label_unchecked_counterexample:
  "(2::int) \<notin> {0, 1} \<and>
   addPoint_spec 5 5 2 init_prompt = Inl InvalidCommand \<and>
   Inr (add_point 5 5 2 init_prompt) \<noteq> addPoint_spec 5 5 2 init_prompt \<and>
   points (add_point 5 5 2 init_prompt) = [(5, 5)] \<and>
   labels (add_point 5 5 2 init_prompt) = [2] \<and>
   needs_update (add_point 5 5 2 init_prompt) = True"
  by (simp add: add_point_def addPoint_spec_def init_prompt_def)

text \<open>
  C5. After one or more mutations (\<^verbatim>\<open>clear\<close>, \<^verbatim>\<open>add_point\<close>, \<^verbatim>\<open>set_box\<close>,
  \<^verbatim>\<open>set_mode\<close>) applied to any state, \<^verbatim>\<open>consume_update_flag\<close> returns true. After a
  call of \<^verbatim>\<open>consume_update_flag\<close>, and after any number of further calls of it with
  no mutation in between, the next call returns false; so two calls in a row never
  both return true. Before the first mutation it returns false as well.
\<close>

theorem consume_once_per_batch:
  assumes "ms \<noteq> []" and "\<forall>m\<in>set ms. is_mutation m" and "\<forall>r\<in>set rs. \<not> is_mutation r"
  shows "fst (consume_update_flag (run_ops ms s)) = True \<and>
         fst (consume_update_flag (run_ops rs (snd (consume_update_flag s')))) = False \<and>
         fst (consume_update_flag (run_ops rs init_prompt)) = False"
proof -
  have a: "needs_update (run_ops ms s)"
    using assms(1,2) by (rule needs_update_run_mutations)
  have "\<not> needs_update (snd (consume_update_flag s'))"
    by (simp add: consume_update_flag_def)
  with assms(3) have b: "\<not> needs_update (run_ops rs (snd (consume_update_flag s')))"
    by (rule needs_update_run_reads)
  have "\<not> needs_update init_prompt"
    by (simp add: init_prompt_def)
  with assms(3) have c: "\<not> needs_update (run_ops rs init_prompt)"
    by (rule needs_update_run_reads)
  from a b c show ?thesis
    by (simp add: consume_update_flag_def)
qed

text \<open>A mode change and a point, then three reads of the flag: true, false, false.\<close>

theorem consume_once_per_batch_witness:
  "fst (consume_update_flag (run_ops [SetMode ''point'', AddPoint 3 4 1] init_prompt)) = True \<and>
   fst (consume_update_flag (run_ops [ConsumeDirty]
      (snd (consume_update_flag (run_ops [SetMode ''point'', AddPoint 3 4 1] init_prompt)))))
     = False \<and>
   fst (consume_update_flag (run_ops [ConsumeDirty] init_prompt)) = False"
  using consume_once_per_batch [of "[SetMode ''point'', AddPoint 3 4 1]" "[ConsumeDirty]"
      init_prompt "run_ops [SetMode ''point'', AddPoint 3 4 1] init_prompt"]
  by simp



text \<open>
  C9, as the code has it. Reading the flag does not touch the points, so the \<open>k\<close>
  points added between two reads of the flag come after the points stored before:
  the read of \<^verbatim>\<open>process_frame_with_sam\<close> that follows sees the earlier points and
  then the \<open>k\<close> new ones in call order, or \<^verbatim>\<open>None\<close> when there is no point at all.
  It sees exactly the \<open>k\<close> new ones when no point was stored before, as after
  \<^verbatim>\<open>clear\<close> or \<^verbatim>\<open>set_mode\<close>.
\<close>

theorem add_points_snapshot:
  "snap_points (snapshot (snd (consume_update_flag (run_ops (map point_op pts)
      (snd (consume_update_flag s)))))) =
     (if points s = [] \<and> pts = [] then None else Some (points s @ map coords pts))"
  using points_run_point_ops [of pts "snd (consume_update_flag s)"]
  by (simp add: snapshot_def consume_update_flag_def)

text \<open>Three points after \<^verbatim>\<open>clear\<close>, one of them added twice.\<close>

theorem add_points_snapshot_witness:
  "snap_points (snapshot (snd (consume_update_flag
      (run_ops (map point_op [(1, 2, 1), (3, 4, 0), (1, 2, 1)])
         (snd (consume_update_flag (clear init_prompt))))))) = Some [(1, 2), (3, 4), (1, 2)]"
  using add_points_snapshot [of "[(1, 2, 1), (3, 4, 0), (1, 2, 1)]" "clear init_prompt"]
  by (simp add: clear_def init_prompt_def)

text \<open>
  C9 as stated fails: with one point stored already, one \<^verbatim>\<open>add_point\<close> between two
  reads of the flag leaves two points in the read that follows, not one.
\<close>

theorem prior_points_kept_counterexample:
  "snap_points (snapshot (snd (consume_update_flag (run_ops (map point_op [(20, 20, 0)])
      (snd (consume_update_flag (add_point 10 10 1 init_prompt)))))))
     = Some [(10, 10), (20, 20)] \<and>
   map_option length (snap_points (snapshot (snd (consume_update_flag
      (run_ops (map point_op [(20, 20, 0)])
         (snd (consume_update_flag (add_point 10 10 1 init_prompt))))))))
     \<noteq> Some (length [(20, 20, 0 :: int)])"
  by (simp add: snapshot_def consume_update_flag_def add_point_def init_prompt_def)

text \<open>
  C10. Every operation on the prompt state keeps \<^verbatim>\<open>points\<close> and \<^verbatim>\<open>labels\<close> equally
  long, and keeps each stored point beside the label it was added with:
  \<^verbatim>\<open>add_point\<close> puts the new pair after the old ones, \<^verbatim>\<open>clear\<close> and \<^verbatim>\<open>set_mode\<close>
  drop all pairs, \<^verbatim>\<open>set_box\<close> and \<^verbatim>\<open>consume_update_flag\<close> change none. So after
  any sequence of operations on a new prompt state the two lists are equally long.
\<close>

theorem points_labels_aligned:
  assumes "length (points s) = length (labels s)"
  shows "length (points (apply_op op s)) = length (labels (apply_op op s)) \<and>
         zip (points (apply_op op s)) (labels (apply_op op s)) =
           (case op of
              AddPoint x y label \<Rightarrow> zip (points s) (labels s) @ [((x, y), label)]
            | Clear \<Rightarrow> []
            | SetMode m \<Rightarrow> []
            | SetBox x1 y1 x2 y2 \<Rightarrow> zip (points s) (labels s)
            | ConsumeDirty \<Rightarrow> zip (points s) (labels s)) \<and>
         length (points (run_ops ops init_prompt)) = length (labels (run_ops ops init_prompt))"
proof -
  have "length (points init_prompt) = length (labels init_prompt)"
    by (simp add: init_prompt_def)
  then have "length (points (run_ops ops init_prompt)) = length (labels (run_ops ops init_prompt))"
    by (rule aligned_run_ops)
  moreover have "zip (points (apply_op op s)) (labels (apply_op op s)) =
           (case op of
              AddPoint x y label \<Rightarrow> zip (points s) (labels s) @ [((x, y), label)]
            | Clear \<Rightarrow> []
            | SetMode m \<Rightarrow> []
            | SetBox x1 y1 x2 y2 \<Rightarrow> zip (points s) (labels s)
            | ConsumeDirty \<Rightarrow> zip (points s) (labels s))"
    using assms
    by (cases op) (simp_all add: clear_def add_point_def set_box_def set_mode_def consume_update_flag_def)
  ultimately show ?thesis
    using aligned_apply_op [OF assms] by simp
qed

text \<open>A second point added after a first one.\<close>

theorem points_labels_aligned_witness:
  "zip (points (apply_op (AddPoint 7 8 0) (add_point 1 2 1 init_prompt)))
       (labels (apply_op (AddPoint 7 8 0) (add_point 1 2 1 init_prompt))) = [((1, 2), 1), ((7, 8), 0)]"
  using points_labels_aligned [of "add_point 1 2 1 init_prompt" "AddPoint 7 8 0" "[]"]
  by (simp add: add_point_def init_prompt_def)

section \<open>Properties of the main loop\<close>





text \<open>
  C1, as the code has it. On an iteration where the call is made and
  \<^verbatim>\<open>process_frame_with_sam\<close> raises, the exception is caught, the frame of the
  iteration is published unchanged, and the loop goes on with the next iteration. No
  message with mask count 0 is sent; when it is \<^verbatim>\<open>set_image\<close> that raises, no
  message is sent at all.
\<close>

theorem engine_failure_passes_frame_through:
  assumes "triggered inp st"
      and "snd (process_frame_with_sam im (sam inp) (current_frame im inp st) (prompt_after inp st)) = Inl e"
  shows "inference (fst (tick im inp st)) = Failed e \<and>
         published (fst (tick im inp st)) = current_frame im inp st \<and>
         MasksCount 0 \<notin> set (sent (fst (tick im inp st))) \<and>
         (set_image (sam inp) (current_frame im inp st) \<noteq> None \<longrightarrow> sent (fst (tick im inp st)) = []) \<and>
         frame_count (snd (tick im inp st)) = frame_count st + 1 \<and>
         length (fst (run_loop im (inp # rest) st)) = Suc (length rest)"
proof -
  obtain msgs where pr:
    "process_frame_with_sam im (sam inp) (current_frame im inp st) (prompt_after inp st) = (msgs, Inl e)"
    using assms(2)
    by (cases "process_frame_with_sam im (sam inp) (current_frame im inp st) (prompt_after inp st)") simp
  have t: "tick im inp st =
       (\<lparr>processed_frame = current_frame im inp st, inference = Failed e,
         published = current_frame im inp st, sent = msgs\<rparr>,
        st\<lparr>frame_count := frame_count st + 1,
           last_frame := snd (acquire (syphon_read inp) (last_frame st)),
           prompt_state := prompt_after inp st\<rparr>)"
    using assms(1) pr by (rule tick_failed)
  have "set msgs \<subseteq> {MasksCount 1}"
    using pr by (rule process_failed_sent)
  then have no0: "MasksCount 0 \<notin> set msgs"
    by auto
  have silent: "set_image (sam inp) (current_frame im inp st) \<noteq> None \<longrightarrow> msgs = []"
  proof
    assume "set_image (sam inp) (current_frame im inp st) \<noteq> None"
    then obtain e' where "set_image (sam inp) (current_frame im inp st) = Some e'"
      by auto
    then have "process_frame_with_sam im (sam inp) (current_frame im inp st) (prompt_after inp st)
        = ([], Inl e')"
      by (rule process_set_image_raises)
    with pr show "msgs = []"
      by simp
  qed
  have len: "length (fst (run_loop im (inp # rest) st)) = Suc (length rest)"
    by (simp only: run_loop_length length_Cons)
  have sent_eq: "sent (fst (tick im inp st)) = msgs"
    by (simp add: t)
  have c1: "inference (fst (tick im inp st)) = Failed e"
    by (simp add: t)
  have c2: "published (fst (tick im inp st)) = current_frame im inp st"
    by (simp add: t)
  have c5: "frame_count (snd (tick im inp st)) = frame_count st + 1"
    by (simp add: t)
  from c1 c2 no0 silent c5 len show ?thesis
    unfolding sent_eq by blast
qed

text \<open>The first iteration with frame 7 and a predictor whose \<^verbatim>\<open>set_image\<close> raises.\<close>

theorem engine_failure_passes_frame_through_witness:
  "inference (fst (tick ex_imaging (quiet (NewFrame 7) failing_sam) init_loop)) = Failed PredictorError \<and>
   published (fst (tick ex_imaging (quiet (NewFrame 7) failing_sam) init_loop)) = 7 \<and>
   sent (fst (tick ex_imaging (quiet (NewFrame 7) failing_sam) init_loop)) = []"
proof -
  have a: "triggered (quiet (NewFrame 7) failing_sam) (init_loop :: nat loop_state)"
    by (simp add: triggered_def init_loop_def)
  have c: "current_frame ex_imaging (quiet (NewFrame 7) failing_sam) init_loop = 7"
    by (simp add: current_frame_def quiet_def reuse_last_frame_def)
  have b: "snd (process_frame_with_sam ex_imaging (sam (quiet (NewFrame 7) failing_sam))
      (current_frame ex_imaging (quiet (NewFrame 7) failing_sam) init_loop)
      (prompt_after (quiet (NewFrame 7) failing_sam) init_loop)) = Inl PredictorError"
    by (simp add: process_frame_with_sam_def quiet_def failing_sam_def)
  have d: "set_image (sam (quiet (NewFrame 7) failing_sam)) 7 \<noteq> None"
    by (simp add: quiet_def failing_sam_def)
  show ?thesis
    using engine_failure_passes_frame_through [OF a b] c d by simp
qed

text \<open>
  C1 as stated fails: on that iteration the call raises and no message with mask
  count 0 is among those sent.
\<close>

theorem engine_failure_telemetry_counterexample:
  "inference (fst (tick ex_imaging (quiet (NewFrame 7) failing_sam) init_loop)) = Failed PredictorError \<and>
   MasksCount 0 \<notin> set (sent (fst (tick ex_imaging (quiet (NewFrame 7) failing_sam) init_loop)))"
  by (simp add: ex_defs)

text \<open>
  C2, as the code has it. An iteration whose call raises publishes its own frame and
  leaves \<^verbatim>\<open>last_mask_viz\<close> as it was. Each following iteration, up to the next one
  that makes the call, publishes the visualization that was cached before the failure,
  or its own frame when nothing was cached.
\<close>

theorem failed_inference_keeps_cache:
  assumes "inference (fst (tick im inp st)) = Failed e"
      and "j < length rest"
      and "\<forall>k\<le>j. inference (fst (run_loop im rest (snd (tick im inp st))) ! k) = NotRun"
  shows "published (fst (tick im inp st)) = processed_frame (fst (tick im inp st)) \<and>
         last_mask_viz (snd (tick im inp st)) = last_mask_viz st \<and>
         published (fst (run_loop im rest (snd (tick im inp st))) ! j) =
           (case last_mask_viz st of
              Some v \<Rightarrow> v
            | None \<Rightarrow> processed_frame (fst (run_loop im rest (snd (tick im inp st))) ! j))"
proof -
  let ?st1 = "snd (tick im inp st)"
  let ?outs = "fst (run_loop im rest ?st1)"
  let ?stj = "snd (run_loop im (take j rest) ?st1)"
  let ?cs = "map computed (take j ?outs)"
  have a: "published (fst (tick im inp st)) = processed_frame (fst (tick im inp st))"
    using assms(1) by (rule tick_published_Failed)
  have b: "last_mask_viz ?st1 = last_mask_viz st"
    using assms(1) by (simp add: tick_last_mask_viz)
  have "\<forall>k<length ?cs. ?cs ! k = None"
    using assms(2,3) by (simp add: run_loop_length computed_def)
  then have "latest (last_mask_viz ?st1) ?cs = last_mask_viz ?st1"
    by (rule latest_all_None)
  then have cache: "last_mask_viz ?stj = last_mask_viz st"
    using b by (simp add: last_mask_viz_run run_loop_take)
  have out: "?outs ! j = fst (tick im (rest ! j) ?stj)"
    using assms(2) by (rule run_loop_nth)
  have "inference (?outs ! j) = NotRun"
    using assms(3) by simp
  then have c: "published (?outs ! j) =
      (case last_mask_viz st of Some v \<Rightarrow> v | None \<Rightarrow> processed_frame (?outs ! j))"
    using tick_published_NotRun [of im "rest ! j" ?stj] cache
    by (simp add: out split: option.splits)
  from a b c show ?thesis
    by simp
qed

text \<open>
  A visualization of frame 10 is cached; the next iteration is triggered by an edit
  and fails on frame 20; the one after it publishes 10.
\<close>

theorem failed_inference_keeps_cache_witness:
  "published (fst (run_loop ex_imaging [quiet (NewFrame 30) ok_sam]
      (snd (tick ex_imaging (edit_tick [SamClear] 20 failing_sam)
         (snd (tick ex_imaging (quiet (NewFrame 10) ok_sam) init_loop))))) ! 0) = 10 \<and>
   published (fst (tick ex_imaging (edit_tick [SamClear] 20 failing_sam)
         (snd (tick ex_imaging (quiet (NewFrame 10) ok_sam) init_loop)))) = 20"
proof -
  let ?st = "snd (tick ex_imaging (quiet (NewFrame 10) ok_sam) init_loop)"
  let ?inp = "edit_tick [SamClear] 20 failing_sam"
  let ?rest = "[quiet (NewFrame 30) ok_sam]"
  have a: "inference (fst (tick ex_imaging ?inp ?st)) = Failed PredictorError"
    by (simp add: ex_defs edit_tick_def)
  have b: "(0::nat) < length ?rest"
    by simp
  have c: "\<forall>k\<le>0. inference (fst (run_loop ex_imaging ?rest (snd (tick ex_imaging ?inp ?st))) ! k) = NotRun"
    by (simp add: ex_defs edit_tick_def)
  have d: "last_mask_viz ?st = Some 10"
    by (simp add: ex_defs)
  have e: "processed_frame (fst (tick ex_imaging ?inp ?st)) = 20"
    by (simp add: ex_defs edit_tick_def)
  show ?thesis
    using failed_inference_keeps_cache [OF a b c] d e by simp
qed

text \<open>
  C2 as stated fails: the second iteration fails and publishes its frame 20, and the
  third, which makes no call, publishes the older visualization 12, not 20.
\<close>

theorem failed_inference_not_cached_counterexample:
  "map inference (fst (run_loop ex_imaging
      [edit_tick [SamMode ''point'', SamPoint (1/2) (1/2) 1] 10 ok_sam,
       edit_tick [SamPoint (1/4) (1/4) 0] 20 failing_sam,
       quiet (NewFrame 30) ok_sam] init_loop)) = [Succeeded, Failed PredictorError, NotRun] \<and>
   map published (fst (run_loop ex_imaging
      [edit_tick [SamMode ''point'', SamPoint (1/2) (1/2) 1] 10 ok_sam,
       edit_tick [SamPoint (1/4) (1/4) 0] 20 failing_sam,
       quiet (NewFrame 30) ok_sam] init_loop)) = [12, 20, 12] \<and>
   last_mask_viz (snd (run_loop ex_imaging
      [edit_tick [SamMode ''point'', SamPoint (1/2) (1/2) 1] 10 ok_sam,
       edit_tick [SamPoint (1/4) (1/4) 0] 20 failing_sam] init_loop)) \<noteq> Some 20"
  by (simp add: ex_defs)

end
